theory Spec2Isabelle
  imports Complex_Main
begin

section \<open>Data model\<close>

text \<open>
  A pandas Series of prices is modelled by its values in index order: \<open>Some x\<close> is an
  observation, \<open>None\<close> a missing one (NaN). Floats are real numbers: the observations,
  and the statistics, p-values and correlations that the library returns. A cleaned
  series (the result of \<open>dropna\<close>) has no missing value and is a \<open>real list\<close>; the
  time step of an observation is its position in the cleaned series, counted from 0.
  Python integers are \<open>int\<close>.
\<close>

type_synonym series = "real option list"

text \<open>A Python exception with the text that \<open>str(e)\<close> gives.\<close>

datatype py_exception = PyException (str: string)

text \<open>
  Log records of the module-level logger: the level and the pieces of the f-string
  (a number is kept as a number, not formatted).
\<close>

datatype level = WARNING | INFO | ERROR

datatype fragment = Txt string | Flt real | Num int

type_synonym log_record = "level \<times> fragment list"

text \<open>
  The 6-tuple returned by \<open>statsmodels.tsa.stattools.adfuller\<close>; the source reads
  positions 0, 1 and 4.
\<close>

record adf_result =
  adfstat :: real
  pvalue :: real
  usedlag :: int
  nobs :: int
  critvalues :: "(string \<times> real) list"
  icbest :: real

text \<open>
  The third-party functions the modules call (pandas, statsmodels and matplotlib) are
  not part of the repository; they are parameters of the model. \<open>std\<close> is
  \<open>Series.std()\<close> on a cleaned series: the number that pandas computes, in double
  precision, which the source compares with 0. Each of the others either returns or
  raises. \<open>savefig\<close> stands for lines 25 to 34 of forecast.py: the figure with
  \<open>plot_acf\<close> and \<open>plot_pacf\<close> for the given number of lags, saved as PNG; its result is
  the content of the buffer. \<open>ARIMA_fit\<close> is \<open>ARIMA(series, order=(p, d, q)).fit()\<close> and
  \<open>forecast\<close> is \<open>model.forecast(steps=k)\<close>, a Series: the predictions in index order,
  each with the time step it is for.
\<close>

record 'm library =
  std :: "real list \<Rightarrow> real"
  adfuller :: "real list \<Rightarrow> py_exception + adf_result"
  acf :: "real list \<Rightarrow> nat \<Rightarrow> py_exception + real list"
  pacf :: "real list \<Rightarrow> nat \<Rightarrow> py_exception + real list"
  savefig :: "real list \<Rightarrow> nat \<Rightarrow> py_exception + string"
  ARIMA_fit :: "real list \<Rightarrow> int \<times> int \<times> int \<Rightarrow> py_exception + 'm"
  forecast :: "'m \<Rightarrow> nat \<Rightarrow> py_exception + (int \<times> real) list"

text \<open>
  A value of the dictionary that \<open>adf_test\<close> returns: the string \<open>"N/A"\<close> or a verdict,
  a float, or the dictionary of critical values.
\<close>

datatype py_value = PyStr string | PyFloat real | PyDict "(string \<times> real) list"

record adf_report =
  Stock :: string
  ADF_Statistic :: py_value
  p_value :: py_value
  Critical_Values :: py_value
  Stationary :: string

text \<open>
  What can stand in the fourth position of the tuple of \<open>get_arima_params\<close>. The source
  builds \<open>PyNone\<close> and \<open>BytesIO\<close> (the buffer with the PNG bytes); \<open>Curves\<close> is the shape
  the specification describes, a pair of numeric sequences (ACF, PACF).
\<close>

datatype diagnostics = PyNone | BytesIO string | is_Curves: Curves "real list" "real list"

section \<open>pandas operations\<close>

fun dropna :: "series \<Rightarrow> real list" where
  "dropna [] = []"
| "dropna (None # xs) = dropna xs"
| "dropna (Some x # xs) = x # dropna xs"

text \<open>
  \<open>Series.diff()\<close>: the first position is missing, every other one is the difference
  to its predecessor.
\<close>

fun diff :: "real list \<Rightarrow> series" where
  "diff [] = []"
| "diff (x # xs) = None # map2 (\<lambda>a b. Some (b - a)) (x # xs) xs"

section \<open>stationarity.py\<close>

definition adf_test ::
  "'m library \<Rightarrow> series \<Rightarrow> string \<Rightarrow> (py_exception + adf_report) \<times> log_record list" where
  "adf_test lib series stock_name =
     (let series_clean = dropna series in
      if length series_clean < 2 \<or> std lib series_clean = 0 then
        (Inr \<lparr>Stock = stock_name, ADF_Statistic = PyStr ''N/A'', p_value = PyStr ''N/A'',
              Critical_Values = PyStr ''N/A'',
              Stationary = ''Cannot Test (Constant or Insufficient Data)''\<rparr>,
         [(WARNING, [Txt ''Cannot perform ADF test on '', Txt stock_name,
                     Txt '': Constant or insufficient data''])])
      else
        (case adfuller lib series_clean of
           Inr result \<Rightarrow>
             (Inr \<lparr>Stock = stock_name, ADF_Statistic = PyFloat (adfstat result),
                   p_value = PyFloat (pvalue result),
                   Critical_Values = PyDict (critvalues result),
                   Stationary = (if pvalue result < 0.05 then ''Stationary''
                                 else ''Non-Stationary'')\<rparr>,
              [(INFO, [Txt ''ADF test completed for '', Txt stock_name,
                       Txt '' with p-value '', Flt (pvalue result)])])
         | Inl e \<Rightarrow>
             (Inr \<lparr>Stock = stock_name, ADF_Statistic = PyStr ''N/A'', p_value = PyStr ''N/A'',
                   Critical_Values = PyStr ''N/A'',
                   Stationary = ''Error: '' @ str e\<rparr>,
              [(ERROR, [Txt ''ADF test failed for '', Txt stock_name, Txt '': '',
                        Txt (str e)])])))"

section \<open>forecast.py\<close>

text \<open>
  The loop of lines 21 to 23. The test is called before the counter is compared, at
  every evaluation of the condition; an exception it raises leaves the loop.
\<close>

function diff_loop ::
  "(real list \<Rightarrow> py_exception + adf_result) \<Rightarrow> real list \<Rightarrow> int
     \<Rightarrow> py_exception + real list \<times> int" where
  "diff_loop adf temp_series diff_count =
     (case adf temp_series of
        Inl e \<Rightarrow> Inl e
      | Inr result \<Rightarrow>
          if pvalue result > 0.05 \<and> diff_count < 2
          then diff_loop adf (dropna (diff temp_series)) (diff_count + 1)
          else Inr (temp_series, diff_count))"
  by pat_completeness auto
termination
  by (relation "measure (\<lambda>(adf, temp_series, diff_count). nat (2 - diff_count))") auto

declare diff_loop.simps [simp del]

text \<open>\<open>range(n)\<close> and \<open>next(generator, default)\<close>.\<close>

definition py_range :: "nat \<Rightarrow> int list" where
  "py_range n = map int [0..<n]"

fun next_default :: "'a list \<Rightarrow> 'a \<Rightarrow> 'a" where
  "next_default [] d = d"
| "next_default (x # xs) d = x"

text \<open>Lines 39 and 40: the first index whose value exceeds 0.2 in magnitude, else 1.\<close>

definition first_lag :: "real list \<Rightarrow> int" where
  "first_lag values =
     next_default (filter (\<lambda>i. \<bar>values ! nat i\<bar> > 0.2) (py_range (length values))) 1"

text \<open>
  The order rule in the words of the specification, for comparison with \<open>first_lag\<close>:
  the smallest position (lag 1 at position 0) whose value exceeds 0.2 in magnitude, and
  1 when there is none.
\<close>

definition spec_first_lag :: "real list \<Rightarrow> int" where
  "spec_first_lag values =
     (if \<exists>i<length values. \<bar>values ! i\<bar> > 0.2
      then int (LEAST i. i < length values \<and> \<bar>values ! i\<bar> > 0.2)
      else 1)"

definition get_arima_params ::
  "'m library \<Rightarrow> series
     \<Rightarrow> (py_exception + int \<times> int \<times> int \<times> diagnostics) \<times> log_record list" where
  "get_arima_params lib series =
     (let series_clean = dropna series in
      if length series_clean < 2 \<or> std lib series_clean = 0 then
        (Inr (1, 0, 1, PyNone),
         [(WARNING, [Txt ''Cannot determine ARIMA parameters: Constant or insufficient data''])])
      else
        (case diff_loop (adfuller lib) series_clean 0 of
           Inl e \<Rightarrow> (Inl e, [])
         | Inr (temp_series, diff_count) \<Rightarrow>
        (case savefig lib temp_series 20 of
           Inl e \<Rightarrow> (Inl e, [])
         | Inr buf \<Rightarrow>
        (case pacf lib temp_series 20 of
           Inl e \<Rightarrow> (Inl e, [])
         | Inr pacf_all \<Rightarrow>
        (case acf lib temp_series 20 of
           Inl e \<Rightarrow> (Inl e, [])
         | Inr acf_all \<Rightarrow>
             (let pacf_values = drop 1 pacf_all;
                  acf_values = drop 1 acf_all;
                  p = min (first_lag pacf_values) 10;
                  q = min (first_lag acf_values) 10
              in (Inr (p, diff_count, q, BytesIO buf),
                  [(INFO, [Txt ''ARIMA parameters determined: p='', Num p, Txt '', d='',
                           Num diff_count, Txt '', q='', Num q])])))))))"

definition forecast_stock ::
  "'m library \<Rightarrow> series \<Rightarrow> int \<Rightarrow> int \<Rightarrow> int
     \<Rightarrow> (py_exception + (int \<times> real) list) \<times> log_record list" where
  "forecast_stock lib series p d q =
     (let series_clean = dropna series in
      if length series_clean < 2 \<or> std lib series_clean = 0 then
        (Inl (PyException ''Cannot forecast: Constant or insufficient data''), [])
      else
        (case ARIMA_fit lib series_clean (p, d, q) of
           Inl e \<Rightarrow> (Inl e, [(ERROR, [Txt ''ARIMA forecast failed: '', Txt (str e)])])
         | Inr model \<Rightarrow>
        (case forecast lib model 7 of
           Inl e \<Rightarrow> (Inl e, [(ERROR, [Txt ''ARIMA forecast failed: '', Txt (str e)])])
         | Inr fc \<Rightarrow>
             (Inr fc, [(INFO, [Txt ''Forecast generated for '', Num (int (length fc)),
                               Txt '' days''])]))))"

section \<open>stationarity.py, with the state outside the function\<close>

text \<open>
  A second reading of \<open>adf_test\<close>, in which what lies outside the function is explicit:
  the records that the module-level logger has emitted so far, and a state that the
  library calls may read and change. A library call takes that state and returns its
  result with the new state; a logger call appends a record. \<open>std\<close> is called only
  when the series has two observations or more (\<open>or\<close> does not evaluate its right
  operand otherwise).
\<close>

record 's world =
  emitted :: "log_record list"
  hidden :: 's

record 's stateful_library =
  std_st :: "real list \<Rightarrow> 's \<Rightarrow> real \<times> 's"
  adfuller_st :: "real list \<Rightarrow> 's \<Rightarrow> (py_exception + adf_result) \<times> 's"

definition logger :: "level \<Rightarrow> fragment list \<Rightarrow> 's world \<Rightarrow> 's world" where
  "logger lvl msg w = w\<lparr>emitted := emitted w @ [(lvl, msg)]\<rparr>"

definition cannot_test :: "string \<Rightarrow> adf_report" where
  "cannot_test stock_name =
     \<lparr>Stock = stock_name, ADF_Statistic = PyStr ''N/A'', p_value = PyStr ''N/A'',
      Critical_Values = PyStr ''N/A'',
      Stationary = ''Cannot Test (Constant or Insufficient Data)''\<rparr>"

definition adf_test_st ::
  "'s stateful_library \<Rightarrow> series \<Rightarrow> string \<Rightarrow> 's world
     \<Rightarrow> (py_exception + adf_report) \<times> 's world" where
  "adf_test_st lib series stock_name w =
     (let series_clean = dropna series;
          warning = [Txt ''Cannot perform ADF test on '', Txt stock_name,
                     Txt '': Constant or insufficient data'']
      in
      if length series_clean < 2 then
        (Inr (cannot_test stock_name), logger WARNING warning w)
      else
        (case std_st lib series_clean (hidden w) of (sd, h1) \<Rightarrow>
         if sd = 0 then
           (Inr (cannot_test stock_name), logger WARNING warning (w\<lparr>hidden := h1\<rparr>))
         else
           (case adfuller_st lib series_clean h1 of
              (Inr result, h2) \<Rightarrow>
                (Inr \<lparr>Stock = stock_name, ADF_Statistic = PyFloat (adfstat result),
                      p_value = PyFloat (pvalue result),
                      Critical_Values = PyDict (critvalues result),
                      Stationary = (if pvalue result < 0.05 then ''Stationary''
                                    else ''Non-Stationary'')\<rparr>,
                 logger INFO [Txt ''ADF test completed for '', Txt stock_name,
                              Txt '' with p-value '', Flt (pvalue result)]
                   (w\<lparr>hidden := h2\<rparr>))
            | (Inl e, h2) \<Rightarrow>
                (Inr \<lparr>Stock = stock_name, ADF_Statistic = PyStr ''N/A'',
                      p_value = PyStr ''N/A'', Critical_Values = PyStr ''N/A'',
                      Stationary = ''Error: '' @ str e\<rparr>,
                 logger ERROR [Txt ''ADF test failed for '', Txt stock_name, Txt '': '',
                               Txt (str e)]
                   (w\<lparr>hidden := h2\<rparr>)))))"

text \<open>Library calls that read and change no state.\<close>

definition stateless :: "'m library \<Rightarrow> 's stateful_library" where
  "stateless lib =
     \<lparr>std_st = (\<lambda>x h. (std lib x, h)), adfuller_st = (\<lambda>x h. (adfuller lib x, h))\<rparr>"

section \<open>Library instances for the examples\<close>

text \<open>
  A small stand-in for the third-party functions, used to run the model on concrete
  series. Its standard deviation is the sample standard deviation (divisor \<open>n - 1\<close>) in
  exact arithmetic. Its unit-root test refuses a series shorter than 4, reports a
  p-value of 0.5 on a series of 6 or more observations and 0.01 below that. Its model
  is the number of observations with the last one; its forecast repeats that
  observation, for the time steps after the sample; its fit fails when the orders use
  up the sample.
\<close>

definition mean :: "real list \<Rightarrow> real" where
  "mean xs = sum_list xs / real (length xs)"

definition exact_std :: "real list \<Rightarrow> real" where
  "exact_std xs = sqrt (sum_list (map (\<lambda>x. (x - mean xs)\<^sup>2) xs) / real (length xs - 1))"

definition stub_adfuller :: "real list \<Rightarrow> py_exception + adf_result" where
  "stub_adfuller x =
     (if length x < 4
      then Inl (PyException ''sample size is too short to use selected regression component'')
      else Inr \<lparr>adfstat = - real (length x),
                pvalue = (if length x < 6 then 0.01 else 0.5),
                usedlag = 0, nobs = int (length x) - 1,
                critvalues = [(''1%'', - 3.5), (''5%'', - 2.9), (''10%'', - 2.6)],
                icbest = 0\<rparr>)"

definition stub_fit ::
  "real list \<Rightarrow> int \<times> int \<times> int \<Rightarrow> py_exception + nat \<times> real" where
  "stub_fit x order =
     (case order of (p, d, q) \<Rightarrow>
        if int (length x) \<le> p + d + q then Inl (PyException ''LU decomposition error.'')
        else Inr (length x, last x))"

definition stub_forecast :: "nat \<times> real \<Rightarrow> nat \<Rightarrow> py_exception + (int \<times> real) list" where
  "stub_forecast model steps =
     (case model of (n, v) \<Rightarrow> Inr (map (\<lambda>i. (int i, v)) [n..<n + steps]))"

definition stub_library :: "(nat \<times> real) library" where
  "stub_library =
     \<lparr>std = exact_std,
      adfuller = stub_adfuller,
      acf = (\<lambda>x nlags. Inr (1 # 0.5 # replicate (nlags - 1) 0)),
      pacf = (\<lambda>x nlags. Inr (1 # 0.1 # 0.1 # 0.4 # replicate (nlags - 3) 0)),
      savefig = (\<lambda>x lags. Inr ''PNG''),
      ARIMA_fit = stub_fit,
      forecast = stub_forecast\<rparr>"

text \<open>
  The same stand-in with the standard deviation computed as pandas computes it on a
  short series, in IEEE double precision: every operation is rounded to the nearest
  double, ties to even. \<open>fl\<close> is that rounding (53 significant bits, gradual underflow
  below the exponent -1022; overflow is left out). The Series holds the doubles nearest
  to the values; the sum and the sum of squared deviations are accumulated from the
  left, the mean and the variance are one division each.
\<close>

definition rne :: "real \<Rightarrow> int" where
  "rne x = (let f = \<lfloor>x\<rfloor>; r = x - of_int f in
             if r < 1 / 2 then f else if 1 / 2 < r then f + 1
             else if even f then f else f + 1)"

definition fl :: "real \<Rightarrow> real" where
  "fl x = (if x = 0 then 0
           else (let e = max \<lfloor>log 2 \<bar>x\<bar>\<rfloor> (- 1022); q = 2 powi (e - 52)
                 in of_int (rne (x / q)) * q))"

definition double_sum :: "real list \<Rightarrow> real" where
  "double_sum xs = foldl (\<lambda>acc x. fl (acc + x)) 0 xs"

definition double_var :: "real list \<Rightarrow> real" where
  "double_var values =
     (let xs = map fl values;
          avg = fl (double_sum xs / real (length xs));
          sqr = map (\<lambda>x. fl ((fl (avg - x))\<^sup>2)) xs
      in fl (double_sum sqr / real (length xs - 1)))"

definition double_std :: "real list \<Rightarrow> real" where
  "double_std values = fl (sqrt (double_var values))"

definition double_library :: "(nat \<times> real) library" where
  "double_library = stub_library\<lparr>std := double_std\<rparr>"

text \<open>
  Library calls with a state: each call counts itself. Their results do not depend on
  the count.
\<close>

definition counting_library :: "nat stateful_library" where
  "counting_library =
     \<lparr>std_st = (\<lambda>x h. (exact_std x, h + 1)),
      adfuller_st = (\<lambda>x h. (stub_adfuller x, h + 1))\<rparr>"

section \<open>The example series\<close>

text \<open>
  In exact arithmetic, with at least two observations, the sample standard deviation
  is zero exactly when the series is constant.
\<close>

lemma exact_std_zero_iff_constant:
  assumes "2 \<le> length xs"
  shows "exact_std xs = 0 \<longleftrightarrow> (\<forall>x\<in>set xs. x = hd xs)"
proof
  assume "exact_std xs = 0"
  with assms have "sum_list (map (\<lambda>x. (x - mean xs)\<^sup>2) xs) = 0"
    by (simp add: exact_std_def)
  then have "\<forall>x\<in>set xs. (x - mean xs)\<^sup>2 = 0"
    by (subst (asm) sum_list_nonneg_eq_0_iff) auto
  then have m: "\<forall>x\<in>set xs. x = mean xs" by simp
  moreover from assms have "hd xs \<in> set xs" by (cases xs) auto
  ultimately show "\<forall>x\<in>set xs. x = hd xs" by metis
next
  assume c: "\<forall>x\<in>set xs. x = hd xs"
  from assms have ne: "real (length xs) \<noteq> 0" by auto
  from c have "map (\<lambda>x. x) xs = map (\<lambda>x. hd xs) xs" by (intro map_cong) auto
  then have "xs = replicate (length xs) (hd xs)" by (simp add: map_replicate_const)
  then have "sum_list xs = real (length xs) * hd xs" by (metis sum_list_replicate)
  with ne have "mean xs = hd xs" unfolding mean_def by simp
  with c have "map (\<lambda>x. (x - mean xs)\<^sup>2) xs = map (\<lambda>x. 0) xs" by (intro map_cong) auto
  then have "sum_list (map (\<lambda>x. (x - mean xs)\<^sup>2) xs) = 0" by (simp only: sum_list_0)
  then show "exact_std xs = 0" unfolding exact_std_def by simp
qed

text \<open>The series used in the examples is not degenerate.\<close>

lemma nondegenerate_example:
  "\<not> (length (dropna [Some 1, Some 2, Some 4, None, Some 7, Some 11, Some 16]) < 2
      \<or> std stub_library (dropna [Some 1, Some 2, Some 4, None, Some 7, Some 11, Some 16]) = 0)"
  by (simp add: stub_library_def exact_std_def mean_def power2_eq_square)

text \<open>A short series that is not degenerate either.\<close>

lemma short_example:
  "\<not> (length (dropna [Some 1, None, Some 2, Some 4]) < 2
      \<or> std stub_library (dropna [Some 1, None, Some 2, Some 4]) = 0)"
  by (simp add: stub_library_def exact_std_def mean_def power2_eq_square)

text \<open>A series that keeps a p-value above 0.05 through two differencing steps.\<close>

lemma long_example:
  "\<not> (length (dropna [Some 1, Some 3, Some 2, Some 6, Some 4, Some 9, Some 5, Some 12]) < 2
      \<or> std stub_library
           (dropna [Some 1, Some 3, Some 2, Some 6, Some 4, Some 9, Some 5, Some 12]) = 0)"
  by (simp add: stub_library_def exact_std_def mean_def power2_eq_square)

section \<open>The degenerate-input guard\<close>

text \<open>
  What the guard does: when the cleaned series has fewer than two observations, or
  pandas computes a standard deviation of exactly zero for it, \<open>adf_test\<close> returns the
  report with the verdict "Cannot Test (Constant or Insufficient Data)" and "N/A" in the
  three numeric fields, \<open>get_arima_params\<close> returns (1, 0, 1, None), and
  \<open>forecast_stock\<close> raises "Cannot forecast: Constant or insufficient data".
\<close>

lemma degenerate_guard_taken:
  assumes "length (dropna series) < 2 \<or> std lib (dropna series) = 0"
  shows "adf_test lib series stock_name =
           (Inr \<lparr>Stock = stock_name, ADF_Statistic = PyStr ''N/A'', p_value = PyStr ''N/A'',
                 Critical_Values = PyStr ''N/A'',
                 Stationary = ''Cannot Test (Constant or Insufficient Data)''\<rparr>,
            [(WARNING, [Txt ''Cannot perform ADF test on '', Txt stock_name,
                        Txt '': Constant or insufficient data''])])
       \<and> get_arima_params lib series =
           (Inr (1, 0, 1, PyNone),
            [(WARNING, [Txt ''Cannot determine ARIMA parameters: Constant or insufficient data''])])
       \<and> forecast_stock lib series p d q =
           (Inl (PyException ''Cannot forecast: Constant or insufficient data''), [])"
  using assms by (simp add: adf_test_def get_arima_params_def forecast_stock_def Let_def)

text \<open>
  Rounding to a double, evaluated: a number of magnitude between \<open>2 powi e\<close> and
  \<open>2 powi (e + 1)\<close>, with \<open>e\<close> at least -1022, is rounded to a multiple of
  \<open>2 powi (e - 52)\<close>.
\<close>

lemma floor_log2:
  assumes "2 powi e \<le> \<bar>x\<bar>" "\<bar>x\<bar> < 2 powi (e + 1)"
  shows "\<lfloor>log 2 \<bar>x\<bar>\<rfloor> = e"
proof -
  have pos: "0 < \<bar>x\<bar>" using assms(1) by (smt (verit) zero_less_power_int)
  have a: "of_int e \<le> log 2 \<bar>x\<bar>"
    using assms(1) pos by (simp add: le_log_iff powr_real_of_int')
  have "\<bar>x\<bar> < 2 powr (of_int (e + 1))"
    using assms(2) powr_real_of_int' [of 2 "e + 1"] by simp
  then have b: "log 2 \<bar>x\<bar> < of_int (e + 1)"
    using pos by (simp add: log_less_iff)
  from a b show ?thesis by (intro floor_unique) simp_all
qed

lemma fl_eval:
  assumes "2 powi e \<le> \<bar>x\<bar>" "\<bar>x\<bar> < 2 powi (e + 1)" "- 1022 \<le> e"
  shows "fl x = of_int (rne (x / 2 powi (e - 52))) * 2 powi (e - 52)"
proof -
  have "x \<noteq> 0" using assms(1) by (smt (verit) zero_less_power_int)
  with floor_log2 [OF assms(1,2)] assms(3) show ?thesis
    by (simp add: fl_def Let_def max_def)
qed

lemma rne_eqI: "of_int m - 1 / 2 < x \<Longrightarrow> x < of_int m + 1 / 2 \<Longrightarrow> rne x = m"
  unfolding rne_def Let_def by (auto; linarith)

text \<open>
  The constant series 0.1, 0.1, 0.1 in double precision. The sum of the three doubles
  rounds up, so the mean is one unit in the last place above the observations, every
  deviation is \<open>2 powi (- 56)\<close>, and the variance is not zero.
\<close>

lemma double_var_tenth:
  "double_var [1 / 10, 1 / 10, 1 / 10] = 3 / 10384593717069655257060992658440192"
proof -
  have f0: "fl (1 / 10) = 3602879701896397 / 36028797018963968"
    by (subst fl_eval [where e = "-4"]) (simp_all add: rne_def Let_def power_int_minus)
  have f1: "fl (3602879701896397 / 36028797018963968) = 3602879701896397 / 36028797018963968"
    by (subst fl_eval [where e = "-4"]) (simp_all add: rne_def Let_def power_int_minus)
  have f2: "fl (3602879701896397 / 18014398509481984) = 3602879701896397 / 18014398509481984"
    by (subst fl_eval [where e = "-3"]) (simp_all add: rne_def Let_def power_int_minus)
  have f3: "fl (10808639105689191 / 36028797018963968) = 1351079888211149 / 4503599627370496"
    by (subst fl_eval [where e = "-2"]) (simp_all add: rne_def Let_def power_int_minus)
  have f4: "fl (1351079888211149 / 13510798882111488) = 7205759403792795 / 72057594037927936"
    by (subst fl_eval [where e = "-4"]) (simp_all add: rne_def Let_def power_int_minus)
  have f5: "fl (1 / 72057594037927936) = 1 / 72057594037927936"
    by (subst fl_eval [where e = "-56"]) (simp_all add: rne_def Let_def power_int_minus)
  have f6: "fl (1 / 5192296858534827628530496329220096) = 1 / 5192296858534827628530496329220096"
    by (subst fl_eval [where e = "-112"]) (simp_all add: rne_def Let_def power_int_minus)
  have f7: "fl (1 / 2596148429267413814265248164610048) = 1 / 2596148429267413814265248164610048"
    by (subst fl_eval [where e = "-111"]) (simp_all add: rne_def Let_def power_int_minus)
  have f8: "fl (3 / 5192296858534827628530496329220096) = 3 / 5192296858534827628530496329220096"
    by (subst fl_eval [where e = "-111"]) (simp_all add: rne_def Let_def power_int_minus)
  have f9: "fl (3 / 10384593717069655257060992658440192) = 3 / 10384593717069655257060992658440192"
    by (subst fl_eval [where e = "-112"]) (simp_all add: rne_def Let_def power_int_minus)
  show ?thesis
    by (simp add: double_var_def double_sum_def Let_def power2_eq_square
        f0 f1 f2 f3 f4 f5 f6 f7 f8 f9)
qed

lemma double_std_tenth:
  "double_std [1 / 10, 1 / 10, 1 / 10] = 2757880273211543 / 162259276829213363391578010288128"
proof -
  let ?v = "3 / 10384593717069655257060992658440192 :: real"
  let ?q = "1 / 324518553658426726783156020576256 :: real"
  have lo: "(5515760546423086 - 1 / 2) * ?q < sqrt ?v"
    by (rule real_less_rsqrt) (simp add: power2_eq_square)
  have hi: "sqrt ?v < (5515760546423086 + 1 / 2) * ?q"
    by (rule real_less_lsqrt) (simp_all add: power2_eq_square)
  have pos: "0 < sqrt ?v" by simp
  have r: "rne (sqrt ?v / 2 powi (- 56 - 52)) = 5515760546423086"
    using lo hi by (intro rne_eqI) (simp_all add: power_int_minus field_simps)
  have "fl (sqrt ?v) = of_int (rne (sqrt ?v / 2 powi (- 56 - 52))) * 2 powi (- 56 - 52)"
    using lo hi pos by (intro fl_eval) (simp_all add: power_int_minus abs_if)
  then have "fl (sqrt ?v) = of_int 5515760546423086 * 2 powi (- 56 - 52)"
    by (simp only: r)
  then have "fl (sqrt ?v) = 2757880273211543 / 162259276829213363391578010288128"
    by (simp add: power_int_minus)
  then show ?thesis
    by (simp only: double_std_def double_var_tenth)
qed

text \<open>
  C1 does not hold of the code on every series of zero standard deviation. The series
  0.1, 0.1, 0.1 is constant, and its standard deviation is zero in exact arithmetic.
  In double precision \<open>std()\<close> gives \<open>2757880273211543 / 2 ^ 107\<close> (about 1.7e-17) for it,
  the comparison with 0 fails, and the three functions go on as for any other series:
  \<open>adf_test\<close> calls the unit-root test and reports what the test gives, here its
  refusal as an Error verdict, not "Cannot Test"; \<open>get_arima_params\<close> raises the
  exception of the test, not returning (1, 0, 1, None); \<open>forecast_stock\<close> fits the model
  and returns a forecast, not raising the degenerate-input error.
\<close>

theorem constant_series_escapes_guard:
  "exact_std (dropna [Some (1 / 10), Some (1 / 10), Some (1 / 10)]) = 0
   \<and> std double_library (dropna [Some (1 / 10), Some (1 / 10), Some (1 / 10)])
       = 2757880273211543 / 162259276829213363391578010288128
   \<and> adf_test double_library [Some (1 / 10), Some (1 / 10), Some (1 / 10)] ''TCS'' =
       (Inr \<lparr>Stock = ''TCS'', ADF_Statistic = PyStr ''N/A'', p_value = PyStr ''N/A'',
             Critical_Values = PyStr ''N/A'',
             Stationary =
               ''Error: sample size is too short to use selected regression component''\<rparr>,
        [(ERROR, [Txt ''ADF test failed for '', Txt ''TCS'', Txt '': '',
                  Txt ''sample size is too short to use selected regression component''])])
   \<and> get_arima_params double_library [Some (1 / 10), Some (1 / 10), Some (1 / 10)] =
       (Inl (PyException ''sample size is too short to use selected regression component''),
        [])
   \<and> forecast_stock double_library [Some (1 / 10), Some (1 / 10), Some (1 / 10)] 1 0 1 =
       (Inr [(3, 1 / 10), (4, 1 / 10), (5, 1 / 10), (6, 1 / 10), (7, 1 / 10), (8, 1 / 10),
             (9, 1 / 10)],
        [(INFO, [Txt ''Forecast generated for '', Num 7, Txt '' days''])])"
proof -
  have exact: "exact_std (dropna [Some (1 / 10), Some (1 / 10), Some (1 / 10)]) = 0"
    by (simp add: exact_std_def mean_def)
  have dbl: "std double_library [1 / 10, 1 / 10, 1 / 10]
               = 2757880273211543 / 162259276829213363391578010288128"
    by (simp add: double_library_def double_std_tenth)
  have adf: "adfuller double_library [1 / 10, 1 / 10, 1 / 10] =
               Inl (PyException
                 ''sample size is too short to use selected regression component'')"
    by (simp add: double_library_def stub_library_def stub_adfuller_def)
  have fit: "ARIMA_fit double_library [1 / 10, 1 / 10, 1 / 10] (1, 0, 1) = Inr (3, 1 / 10)"
    by (simp add: double_library_def stub_library_def stub_fit_def)
  have fc: "forecast double_library (3, 1 / 10) 7 =
              Inr [(3, 1 / 10), (4, 1 / 10), (5, 1 / 10), (6, 1 / 10), (7, 1 / 10),
                   (8, 1 / 10), (9, 1 / 10)]"
    by (simp add: double_library_def stub_library_def stub_forecast_def upt_rec)
  have 1: "adf_test double_library [Some (1 / 10), Some (1 / 10), Some (1 / 10)] ''TCS'' =
       (Inr \<lparr>Stock = ''TCS'', ADF_Statistic = PyStr ''N/A'', p_value = PyStr ''N/A'',
             Critical_Values = PyStr ''N/A'',
             Stationary =
               ''Error: sample size is too short to use selected regression component''\<rparr>,
        [(ERROR, [Txt ''ADF test failed for '', Txt ''TCS'', Txt '': '',
                  Txt ''sample size is too short to use selected regression component''])])"
    by (simp add: adf_test_def dbl adf)
  have 2: "get_arima_params double_library [Some (1 / 10), Some (1 / 10), Some (1 / 10)] =
       (Inl (PyException ''sample size is too short to use selected regression component''),
        [])"
    by (simp add: get_arima_params_def dbl adf diff_loop.simps)
  have 3: "forecast_stock double_library [Some (1 / 10), Some (1 / 10), Some (1 / 10)] 1 0 1 =
       (Inr [(3, 1 / 10), (4, 1 / 10), (5, 1 / 10), (6, 1 / 10), (7, 1 / 10), (8, 1 / 10),
             (9, 1 / 10)],
        [(INFO, [Txt ''Forecast generated for '', Num 7, Txt '' days''])])"
    by (simp add: forecast_stock_def dbl fit fc)
  from exact dbl 1 2 3 show ?thesis by simp
qed

section \<open>The stationarity report\<close>

text \<open>
  C4. On a series that is not degenerate and on which the unit-root test returns,
  \<open>adf_test\<close> returns a report whose verdict is "Stationary" exactly when the p-value of
  the test is strictly below 0.05 and "Non-Stationary" exactly when it is not, with the
  statistic, the p-value and the critical values of the test in the report.
\<close>

theorem adf_test_verdict:
  assumes "\<not> (length (dropna series) < 2 \<or> std lib (dropna series) = 0)"
      and "adfuller lib (dropna series) = Inr result"
  shows "\<exists>report. fst (adf_test lib series stock_name) = Inr report
           \<and> (Stationary report = ''Stationary'' \<longleftrightarrow> pvalue result < 0.05)
           \<and> (Stationary report = ''Non-Stationary'' \<longleftrightarrow> \<not> pvalue result < 0.05)
           \<and> ADF_Statistic report = PyFloat (adfstat result)
           \<and> p_value report = PyFloat (pvalue result)
           \<and> Critical_Values report = PyDict (critvalues result)
           \<and> Stock report = stock_name"
  using assms by (simp add: adf_test_def Let_def)

theorem adf_test_verdict_witness:
  "fst (adf_test stub_library [Some 1, Some 2, Some 4, None, Some 7, Some 11, Some 16] ''TCS'')
     = Inr \<lparr>Stock = ''TCS'', ADF_Statistic = PyFloat (- 6), p_value = PyFloat 0.5,
             Critical_Values = PyDict [(''1%'', - 3.5), (''5%'', - 2.9), (''10%'', - 2.6)],
             Stationary = ''Non-Stationary''\<rparr>"
proof -
  have a: "adfuller stub_library (dropna [Some 1, Some 2, Some 4, None, Some 7, Some 11, Some 16])
           = Inr \<lparr>adfstat = - 6, pvalue = 0.5, usedlag = 0, nobs = 5,
                  critvalues = [(''1%'', - 3.5), (''5%'', - 2.9), (''10%'', - 2.6)],
                  icbest = 0\<rparr>"
    by (simp add: stub_library_def stub_adfuller_def)
  show ?thesis
    using adf_test_verdict [OF nondegenerate_example a, of "''TCS''"] by auto
qed

section \<open>Failures of the third-party functions\<close>

text \<open>
  C6. On a series that is not degenerate and on which the unit-root test raises,
  \<open>adf_test\<close> does not raise: it returns the report whose verdict is "Error: " followed
  by the message of the exception, with "N/A" in the three numeric fields, and logs the
  failure.
\<close>

theorem adf_test_catches_failure:
  assumes "\<not> (length (dropna series) < 2 \<or> std lib (dropna series) = 0)"
      and "adfuller lib (dropna series) = Inl e"
  shows "adf_test lib series stock_name =
           (Inr \<lparr>Stock = stock_name, ADF_Statistic = PyStr ''N/A'', p_value = PyStr ''N/A'',
                 Critical_Values = PyStr ''N/A'', Stationary = ''Error: '' @ str e\<rparr>,
            [(ERROR, [Txt ''ADF test failed for '', Txt stock_name, Txt '': '',
                      Txt (str e)])])"
  using assms by (simp add: adf_test_def Let_def)

theorem adf_test_catches_failure_witness:
  "adf_test stub_library [Some 1, None, Some 2, Some 4] ''TCS'' =
     (Inr \<lparr>Stock = ''TCS'', ADF_Statistic = PyStr ''N/A'', p_value = PyStr ''N/A'',
           Critical_Values = PyStr ''N/A'',
           Stationary =
             ''Error: sample size is too short to use selected regression component''\<rparr>,
      [(ERROR, [Txt ''ADF test failed for '', Txt ''TCS'', Txt '': '',
                Txt ''sample size is too short to use selected regression component''])])"
proof -
  have a: "adfuller stub_library (dropna [Some 1, None, Some 2, Some 4]) =
             Inl (PyException ''sample size is too short to use selected regression component'')"
    by (simp add: stub_library_def stub_adfuller_def)
  show ?thesis
    using adf_test_catches_failure [OF short_example a, of "''TCS''"] by simp
qed

text \<open>
  C10. \<open>get_arima_params\<close> has no handler around the unit-root test: on a series that is
  not degenerate and on which the test raises, the exception of the test is the outcome
  of \<open>get_arima_params\<close> and no proposal is returned, while \<open>adf_test\<close> returns a report
  on the same series.
\<close>

theorem get_arima_params_propagates:
  assumes "\<not> (length (dropna series) < 2 \<or> std lib (dropna series) = 0)"
      and "adfuller lib (dropna series) = Inl e"
  shows "get_arima_params lib series = (Inl e, [])
       \<and> (\<exists>report. fst (adf_test lib series stock_name) = Inr report)"
  using assms by (simp add: get_arima_params_def adf_test_def Let_def diff_loop.simps)

theorem get_arima_params_propagates_witness:
  "2 \<le> length (dropna [Some 1, None, Some 2, Some 4])
   \<and> std stub_library (dropna [Some 1, None, Some 2, Some 4]) \<noteq> 0
   \<and> get_arima_params stub_library [Some 1, None, Some 2, Some 4] =
       (Inl (PyException ''sample size is too short to use selected regression component''), [])"
proof -
  have a: "adfuller stub_library (dropna [Some 1, None, Some 2, Some 4]) =
             Inl (PyException ''sample size is too short to use selected regression component'')"
    by (simp add: stub_library_def stub_adfuller_def)
  show ?thesis
    using short_example get_arima_params_propagates [OF short_example a, of "''TCS''"]
    by simp
qed

text \<open>
  C7. On a series that is not degenerate, when the fit raises, or the fit returns a
  model and the 7-step forecast of that model raises, \<open>forecast_stock\<close> logs
  "ARIMA forecast failed: " with the message and raises the same exception; it returns
  no forecast.
\<close>

theorem forecast_stock_reraises:
  assumes "\<not> (length (dropna series) < 2 \<or> std lib (dropna series) = 0)"
      and "ARIMA_fit lib (dropna series) (p, d, q) = Inl e
           \<or> (\<exists>model. ARIMA_fit lib (dropna series) (p, d, q) = Inr model
                       \<and> forecast lib model 7 = Inl e)"
  shows "forecast_stock lib series p d q =
           (Inl e, [(ERROR, [Txt ''ARIMA forecast failed: '', Txt (str e)])])"
  using assms by (auto simp add: forecast_stock_def Let_def)

theorem forecast_stock_reraises_witness:
  "forecast_stock stub_library [Some 1, Some 2, Some 4, None, Some 7, Some 11, Some 16] 3 1 2 =
     (Inl (PyException ''LU decomposition error.''),
      [(ERROR, [Txt ''ARIMA forecast failed: '', Txt ''LU decomposition error.''])])"
proof -
  have a: "ARIMA_fit stub_library
             (dropna [Some 1, Some 2, Some 4, None, Some 7, Some 11, Some 16]) (3, 1, 2)
           = Inl (PyException ''LU decomposition error.'')"
    by (simp add: stub_library_def stub_fit_def)
  show ?thesis
    using forecast_stock_reraises [OF nondegenerate_example disjI1, OF a] by simp
qed

section \<open>The forecast\<close>

text \<open>
  C5. On a series that is not degenerate, for any orders, when the fit returns a model
  and the 7-step forecast of that model returns, \<open>forecast_stock\<close> returns that forecast
  as the library gives it and logs its length. The library's contract is that the
  forecast of \<open>k\<close> steps from a model fitted to \<open>n\<close> observations holds the predictions for
  the time steps \<open>n\<close>, ..., \<open>n + k - 1\<close> in this order, the observations being at the steps
  \<open>0\<close>, ..., \<open>n - 1\<close>. So the result has exactly 7 predictions, for the 7 time steps that
  follow the last observation, in chronological order.
\<close>

theorem forecast_stock_seven:
  assumes "\<not> (length (dropna series) < 2 \<or> std lib (dropna series) = 0)"
      and "ARIMA_fit lib (dropna series) (p, d, q) = Inr model"
      and "forecast lib model 7 = Inr fc"
      and "\<And>xs order m k f. ARIMA_fit lib xs order = Inr m \<Longrightarrow> forecast lib m k = Inr f
             \<Longrightarrow> map fst f = map int [length xs..<length xs + k]"
  shows "forecast_stock lib series p d q =
           (Inr fc, [(INFO, [Txt ''Forecast generated for '', Num 7, Txt '' days''])])
       \<and> length fc = 7
       \<and> map fst fc = map int [length (dropna series)..<length (dropna series) + 7]"
proof -
  from assms(2-4)
  have steps: "map fst fc = map int [length (dropna series)..<length (dropna series) + 7]"
    by blast
  then have "length (map fst fc) = 7" by simp
  then have "length fc = 7" by simp
  with assms(1-3) steps show ?thesis by (simp add: forecast_stock_def Let_def)
qed

theorem forecast_stock_seven_witness:
  "forecast_stock stub_library [Some 1, Some 2, Some 4, None, Some 7, Some 11, Some 16] 2 1 0 =
     (Inr [(6, 16), (7, 16), (8, 16), (9, 16), (10, 16), (11, 16), (12, 16)],
      [(INFO, [Txt ''Forecast generated for '', Num 7, Txt '' days''])])
   \<and> map fst [(6, 16), (7, 16), (8, 16), (9, 16), (10, 16), (11, 16), (12, 16 :: real)]
       = map int [length (dropna [Some 1, Some 2, Some 4, None, Some 7, Some 11, Some 16])..<
                  length (dropna [Some 1, Some 2, Some 4, None, Some 7, Some 11, Some 16]) + 7]"
proof -
  have a: "ARIMA_fit stub_library
             (dropna [Some 1, Some 2, Some 4, None, Some 7, Some 11, Some 16]) (2, 1, 0)
           = Inr (6, 16)"
    by (simp add: stub_library_def stub_fit_def)
  have b: "forecast stub_library (6, 16) 7 =
             Inr [(6, 16), (7, 16), (8, 16), (9, 16), (10, 16), (11, 16), (12, 16)]"
    by (simp add: stub_library_def stub_forecast_def upt_rec)
  have c: "\<And>xs order m k f. ARIMA_fit stub_library xs order = Inr m
             \<Longrightarrow> forecast stub_library m k = Inr f
             \<Longrightarrow> map fst f = map int [length xs..<length xs + k]"
    by (auto simp add: stub_library_def stub_fit_def stub_forecast_def comp_def
        split: if_splits)
  show ?thesis
    using forecast_stock_seven [OF nondegenerate_example a b c] by simp
qed

section \<open>Determinism of the stationarity report\<close>

text \<open>
  The reading with the state agrees with \<open>adf_test\<close> when the library calls read and
  change no state: the report is the same, and the records of \<open>adf_test\<close> are appended
  to those emitted before.
\<close>

lemma adf_test_st_stateless:
  "adf_test_st (stateless lib) series stock_name w =
     (fst (adf_test lib series stock_name),
      w\<lparr>emitted := emitted w @ snd (adf_test lib series stock_name)\<rparr>)"
  by (simp add: adf_test_st_def adf_test_def stateless_def logger_def cannot_test_def Let_def
      split: sum.splits)

text \<open>
  C9. \<open>adf_test\<close> keeps and reads no state of its own. When the results of the two
  library calls it makes, \<open>std\<close> and \<open>adfuller\<close>, are the same whatever the state they are
  called in, the report of \<open>adf_test\<close> on a series and a name is the same in every state
  of the world, whatever the logger has emitted and whatever the library has left
  behind: in particular a second call, made in the world that the first call leaves,
  returns the report that the first call returned.
\<close>

theorem adf_test_deterministic:
  assumes "\<And>x h h'. fst (std_st lib x h) = fst (std_st lib x h')"
      and "\<And>x h h'. fst (adfuller_st lib x h) = fst (adfuller_st lib x h')"
  shows "fst (adf_test_st lib series stock_name w') = fst (adf_test_st lib series stock_name w)
       \<and> fst (adf_test_st lib series stock_name (snd (adf_test_st lib series stock_name w)))
           = fst (adf_test_st lib series stock_name w)"
proof -
  have any: "fst (adf_test_st lib series stock_name u) = fst (adf_test_st lib series stock_name v)"
    for u v
  proof -
    obtain su hu where u: "std_st lib (dropna series) (hidden u) = (su, hu)"
      by (cases "std_st lib (dropna series) (hidden u)")
    obtain sv hv where v: "std_st lib (dropna series) (hidden v) = (sv, hv)"
      by (cases "std_st lib (dropna series) (hidden v)")
    from assms(1) [of "dropna series" "hidden u" "hidden v"] u v have s: "su = sv" by simp
    obtain au ku where au: "adfuller_st lib (dropna series) hu = (au, ku)"
      by (cases "adfuller_st lib (dropna series) hu")
    obtain av kv where av: "adfuller_st lib (dropna series) hv = (av, kv)"
      by (cases "adfuller_st lib (dropna series) hv")
    from assms(2) [of "dropna series" hu hv] au av have a: "au = av" by simp
    show ?thesis
      by (cases av) (simp_all add: adf_test_st_def Let_def u v s au av a)
  qed
  from any [of w' w] any [of "snd (adf_test_st lib series stock_name w)" w]
  show ?thesis by simp
qed

theorem adf_test_deterministic_witness:
  "adf_test_st counting_library [Some 1, Some 2, Some 4, None, Some 7, Some 11, Some 16] ''TCS''
     \<lparr>emitted = [], hidden = 0\<rparr>
   = (Inr \<lparr>Stock = ''TCS'', ADF_Statistic = PyFloat (- 6), p_value = PyFloat 0.5,
           Critical_Values = PyDict [(''1%'', - 3.5), (''5%'', - 2.9), (''10%'', - 2.6)],
           Stationary = ''Non-Stationary''\<rparr>,
      \<lparr>emitted = [(INFO, [Txt ''ADF test completed for '', Txt ''TCS'',
                          Txt '' with p-value '', Flt 0.5])],
       hidden = 2\<rparr>)
   \<and> fst (adf_test_st counting_library
        [Some 1, Some 2, Some 4, None, Some 7, Some 11, Some 16] ''TCS''
        \<lparr>emitted = [(INFO, [Txt ''ADF test completed for '', Txt ''TCS'',
                            Txt '' with p-value '', Flt 0.5])],
         hidden = 2\<rparr>)
   = Inr \<lparr>Stock = ''TCS'', ADF_Statistic = PyFloat (- 6), p_value = PyFloat 0.5,
           Critical_Values = PyDict [(''1%'', - 3.5), (''5%'', - 2.9), (''10%'', - 2.6)],
           Stationary = ''Non-Stationary''\<rparr>"
proof -
  have s: "\<And>x h h'. fst (std_st counting_library x h) = fst (std_st counting_library x h')"
    by (simp add: counting_library_def)
  have a: "\<And>x h h'. fst (adfuller_st counting_library x h)
                      = fst (adfuller_st counting_library x h')"
    by (simp add: counting_library_def)
  have first: "adf_test_st counting_library
       [Some 1, Some 2, Some 4, None, Some 7, Some 11, Some 16] ''TCS''
       \<lparr>emitted = [], hidden = 0\<rparr>
     = (Inr \<lparr>Stock = ''TCS'', ADF_Statistic = PyFloat (- 6), p_value = PyFloat 0.5,
             Critical_Values = PyDict [(''1%'', - 3.5), (''5%'', - 2.9), (''10%'', - 2.6)],
             Stationary = ''Non-Stationary''\<rparr>,
        \<lparr>emitted = [(INFO, [Txt ''ADF test completed for '', Txt ''TCS'',
                            Txt '' with p-value '', Flt 0.5])],
         hidden = 2\<rparr>)"
    using nondegenerate_example
    by (simp add: adf_test_st_def counting_library_def stub_library_def stub_adfuller_def
        logger_def Let_def)
  show ?thesis
    using first
      adf_test_deterministic [OF s a,
        of "[Some 1, Some 2, Some 4, None, Some 7, Some 11, Some 16]" "''TCS''"
           "\<lparr>emitted = [], hidden = 0\<rparr>" "\<lparr>emitted = [], hidden = 0\<rparr>"]
    by simp
qed

section \<open>The order proposal\<close>

text \<open>The head of a filtered index range is the least index that passes the filter.\<close>

lemma filter_upt_head:
  assumes "filter Q [0..<n] = i # rest"
  shows "i < n \<and> Q i \<and> (\<forall>j<i. \<not> Q j)"
proof -
  have mem: "i \<in> set (filter Q [0..<n])" using assms by simp
  then have 1: "i < n" and 2: "Q i" by auto
  have s: "sorted (filter Q [0..<n])" by (rule sorted_wrt_filter) simp
  have "\<forall>j<i. \<not> Q j"
  proof (intro allI impI notI)
    fix j assume "j < i" "Q j"
    with 1 have "j \<in> set (filter Q [0..<n])" by auto
    with assms have "j \<in> set (i # rest)" by simp
    moreover from s assms have "sorted (i # rest)" by simp
    ultimately have "i \<le> j" by auto
    with \<open>j < i\<close> show False by simp
  qed
  with 1 2 show ?thesis by blast
qed

lemma first_lag_spec: "first_lag values = spec_first_lag values"
proof -
  let ?Q = "\<lambda>i. \<bar>values ! i\<bar> > 0.2"
  let ?n = "length values"
  have f: "filter (\<lambda>i. \<bar>values ! nat i\<bar> > 0.2) (py_range ?n) = map int (filter ?Q [0..<?n])"
    by (simp add: py_range_def filter_map comp_def)
  show ?thesis
  proof (cases "filter ?Q [0..<?n]")
    case Nil
    then have "\<forall>i\<in>set [0..<?n]. \<not> ?Q i" by (simp only: filter_empty_conv) 
    then have "\<not> (\<exists>i<?n. ?Q i)" by auto
    then have "spec_first_lag values = 1" unfolding spec_first_lag_def by (rule if_not_P)
    moreover from Nil f have "first_lag values = 1" unfolding first_lag_def by simp
    ultimately show ?thesis by simp
  next
    case (Cons i rest)
    from filter_upt_head [OF Cons] have i: "i < ?n" "?Q i" "\<forall>j<i. \<not> ?Q j" by auto
    then have "(LEAST k. k < ?n \<and> ?Q k) = i"
      by (intro Least_equality) (auto simp: not_less [symmetric])
    moreover from i have "\<exists>k<?n. ?Q k" by blast
    ultimately have "spec_first_lag values = int i" unfolding spec_first_lag_def by simp
    moreover from Cons f have "first_lag values = int i" unfolding first_lag_def by simp
    ultimately show ?thesis by simp
  qed
qed

lemma first_lag_nonneg: "0 \<le> first_lag values"
  by (simp add: first_lag_spec spec_first_lag_def)

text \<open>
  The invariant of the differencing loop, from any counter \<open>c \<le> 2\<close>: the counter at exit
  is at most 2, the series at exit is the start differenced \<open>d - c\<close> times, every round
  taken had a p-value above 0.05, and at exit the p-value is at most 0.05 or the counter
  is 2.
\<close>

lemma diff_loop_inv:
  "diff_loop adf t c = Inr (temp, d) \<Longrightarrow> c \<le> 2 \<Longrightarrow>
     c \<le> d \<and> d \<le> 2 \<and> temp = ((\<lambda>s. dropna (diff s)) ^^ nat (d - c)) t
     \<and> (\<forall>k<nat (d - c). \<exists>r. adf (((\<lambda>s. dropna (diff s)) ^^ k) t) = Inr r \<and> pvalue r > 0.05)
     \<and> (\<exists>r. adf temp = Inr r \<and> (pvalue r \<le> 0.05 \<or> d = 2))"
proof (induction adf t c rule: diff_loop.induct)
  case (1 adf t c)
  let ?step = "\<lambda>s. dropna (diff s)"
  from "1.prems"(1) obtain result where res: "adf t = Inr result"
    by (subst (asm) diff_loop.simps) (auto split: sum.splits)
  show ?case
  proof (cases "pvalue result > 0.05 \<and> c < 2")
    case True
    with res "1.prems"(1) have rec: "diff_loop adf (?step t) (c + 1) = Inr (temp, d)"
      by (subst (asm) diff_loop.simps) simp
    from True have "c + 1 \<le> 2" by simp
    from "1.IH" [OF res True rec this]
    have ih: "c + 1 \<le> d" "d \<le> 2" "temp = (?step ^^ nat (d - (c + 1))) (?step t)"
      "\<forall>k<nat (d - (c + 1)). \<exists>r. adf ((?step ^^ k) (?step t)) = Inr r \<and> pvalue r > 0.05"
      "\<exists>r. adf temp = Inr r \<and> (pvalue r \<le> 0.05 \<or> d = 2)"
      by auto
    from ih(1) have n: "nat (d - c) = Suc (nat (d - (c + 1)))" by simp
    have t: "temp = (?step ^^ nat (d - c)) t"
      unfolding n using ih(3) by (simp only: funpow_Suc_right comp_def)
    have a: "\<forall>k<nat (d - c). \<exists>r. adf ((?step ^^ k) t) = Inr r \<and> pvalue r > 0.05"
    proof (intro allI impI)
      fix k assume k: "k < nat (d - c)"
      show "\<exists>r. adf ((?step ^^ k) t) = Inr r \<and> pvalue r > 0.05"
      proof (cases k)
        case 0
        with res True show ?thesis by simp
      next
        case (Suc j)
        with k n have "j < nat (d - (c + 1))" by simp
        with ih(4) have "\<exists>r. adf ((?step ^^ j) (?step t)) = Inr r \<and> pvalue r > 0.05" by blast
        then show ?thesis unfolding Suc by (simp only: funpow_Suc_right comp_def)
      qed
    qed
    from ih(1,2,5) t a show ?thesis by simp
  next
    case False
    with res "1.prems"(1) have "temp = t" "d = c"
      by (subst (asm) diff_loop.simps, auto)+
    with False res "1.prems"(2) show ?thesis by auto
  qed
qed

text \<open>A run on the example series: one differencing step, then the order rule.\<close>

lemma example_run:
  "get_arima_params stub_library [Some 1, Some 2, Some 4, None, Some 7, Some 11, Some 16] =
     (Inr (2, 1, 0, BytesIO ''PNG''),
      [(INFO, [Txt ''ARIMA parameters determined: p='', Num 2, Txt '', d='', Num 1,
               Txt '', q='', Num 0])])"
proof -
  have 1: "diff_loop stub_adfuller [1, 2, 4, 7, 11, 16] 0 =
             diff_loop stub_adfuller [1, 2, 3, 4, 5] 1"
    by (subst diff_loop.simps) (simp add: stub_adfuller_def)
  have 2: "diff_loop stub_adfuller [1, 2, 3, 4, 5] 1 = Inr ([1, 2, 3, 4, 5], 1)"
    by (subst diff_loop.simps) (simp add: stub_adfuller_def)
  have 3: "first_lag [1 / 10, 1 / 10, 2 / 5, 0, 0, 0, 0, 0, 0, 0, 0, 0, 0, 0, 0, 0, 0, 0, 0, 0] = 2"
    by (simp add: first_lag_def py_range_def upt_rec)
  have 4: "first_lag [1 / 2, 0, 0, 0, 0, 0, 0, 0, 0, 0, 0, 0, 0, 0, 0, 0, 0, 0, 0, 0] = 0"
    by (simp add: first_lag_def py_range_def upt_rec)
  have 5: "adfuller stub_library = stub_adfuller"
    and 6: "savefig stub_library [1, 2, 3, 4, 5] 20 = Inr ''PNG''"
    and 7: "pacf stub_library [1, 2, 3, 4, 5] 20 =
             Inr [1, 0.1, 0.1, 0.4, 0, 0, 0, 0, 0, 0, 0, 0, 0, 0, 0, 0, 0, 0, 0, 0, 0]"
    and 8: "acf stub_library [1, 2, 3, 4, 5] 20 =
             Inr [1, 0.5, 0, 0, 0, 0, 0, 0, 0, 0, 0, 0, 0, 0, 0, 0, 0, 0, 0, 0, 0]"
    by (simp_all add: stub_library_def numeral_eq_Suc)
  from nondegenerate_example show ?thesis
    unfolding get_arima_params_def by (simp add: 1 2 3 4 5 6 7 8 Let_def)
qed

text \<open>
  The converse: when the unit-root test returns a p-value above 0.05 on the series and
  on each of its first \<open>n - 1\<close> differences, and returns on the \<open>n\<close>-th difference with a
  p-value of at most 0.05 or with the counter at 2, the loop returns that difference
  and the counter.
\<close>

lemma diff_loop_produces:
  assumes "\<forall>k<n. \<exists>r. adf (((\<lambda>s. dropna (diff s)) ^^ k) t) = Inr r \<and> pvalue r > 0.05"
      and "adf (((\<lambda>s. dropna (diff s)) ^^ n) t) = Inr r"
      and "pvalue r \<le> 0.05 \<or> c + int n = 2"
      and "c + int n \<le> 2"
  shows "diff_loop adf t c = Inr (((\<lambda>s. dropna (diff s)) ^^ n) t, c + int n)"
  using assms
proof (induction n arbitrary: t c)
  case 0
  then have "adf t = Inr r" and "\<not> (pvalue r > 0.05 \<and> c < 2)" by auto
  then show ?case by (subst diff_loop.simps) auto
next
  case (Suc n)
  let ?step = "\<lambda>s. dropna (diff s)"
  from Suc.prems(1) obtain r0 where r0: "adf t = Inr r0" "pvalue r0 > 0.05"
    by (metis funpow_0 zero_less_Suc)
  from Suc.prems(4) have c: "c < 2" by simp
  have rounds: "\<forall>k<n. \<exists>r. adf ((?step ^^ k) (?step t)) = Inr r \<and> pvalue r > 0.05"
  proof (intro allI impI)
    fix k assume "k < n"
    then have "Suc k < Suc n" by simp
    with Suc.prems(1) have "\<exists>r. adf ((?step ^^ Suc k) t) = Inr r \<and> pvalue r > 0.05"
      by blast
    then show "\<exists>r. adf ((?step ^^ k) (?step t)) = Inr r \<and> pvalue r > 0.05"
      by (simp only: funpow_Suc_right comp_def)
  qed
  have exit: "adf ((?step ^^ n) (?step t)) = Inr r"
    using Suc.prems(2) by (simp only: funpow_Suc_right comp_def)
  have "diff_loop adf (?step t) (c + 1) = Inr ((?step ^^ n) (?step t), (c + 1) + int n)"
    using Suc.prems(3,4) by (intro Suc.IH [OF rounds exit]) simp_all
  then have "diff_loop adf (?step t) (c + 1) = Inr ((?step ^^ Suc n) t, c + int (Suc n))"
    by (simp only: funpow_Suc_right comp_def) (simp add: add.assoc add.commute)
  with r0 c show ?case by (subst diff_loop.simps) simp
qed

text \<open>
  When a proposal is returned, its \<open>p\<close> and \<open>q\<close> follow the rule of the specification on
  the PACF and ACF of the series at the exit of the loop.
\<close>

lemma order_estimation_returned:
  assumes "\<not> (length (dropna series) < 2 \<or> std lib (dropna series) = 0)"
      and "get_arima_params lib series = (Inr (p, d, q, b), records)"
  shows "\<exists>temp pacf_all acf_all.
           diff_loop (adfuller lib) (dropna series) 0 = Inr (temp, d)
         \<and> pacf lib temp 20 = Inr pacf_all
         \<and> acf lib temp 20 = Inr acf_all
         \<and> p = min (spec_first_lag (drop 1 pacf_all)) 10
         \<and> q = min (spec_first_lag (drop 1 acf_all)) 10
         \<and> 0 \<le> p \<and> p \<le> 10 \<and> 0 \<le> q \<and> q \<le> 10"
  using assms first_lag_nonneg
  by (auto simp add: get_arima_params_def Let_def first_lag_spec [symmetric] split: sum.splits)

text \<open>
  C2, as the code has it. On a series that is not degenerate, when the third-party
  calls return, \<open>get_arima_params\<close> returns a proposal whose \<open>p\<close> is the minimum of 10 and
  the smallest position in the PACF sequence without lag 0 (lag 1 at position 0) whose
  magnitude exceeds 0.2, with 1 in place of the position when there is none, and whose
  \<open>q\<close> is the same against the ACF sequence; both lie between 0 and 10. The calls are
  the unit-root tests of the loop (\<open>n\<close> rounds on a p-value above 0.05, then an exit on a
  p-value of at most 0.05 or at \<open>n = 2\<close>), and the plot, the PACF and the ACF of the
  series at the exit.
\<close>

theorem order_estimation:
  assumes "\<not> (length (dropna series) < 2 \<or> std lib (dropna series) = 0)"
      and "\<forall>k<n. \<exists>r'. adfuller lib (((\<lambda>s. dropna (diff s)) ^^ k) (dropna series)) = Inr r'
                       \<and> pvalue r' > 0.05"
      and "temp = ((\<lambda>s. dropna (diff s)) ^^ n) (dropna series)"
      and "adfuller lib temp = Inr r"
      and "pvalue r \<le> 0.05 \<or> n = 2"
      and "n \<le> 2"
      and "savefig lib temp 20 = Inr png"
      and "pacf lib temp 20 = Inr pacf_all"
      and "acf lib temp 20 = Inr acf_all"
  shows "get_arima_params lib series =
           (Inr (min (spec_first_lag (drop 1 pacf_all)) 10, int n,
                 min (spec_first_lag (drop 1 acf_all)) 10, BytesIO png),
            [(INFO, [Txt ''ARIMA parameters determined: p='',
                     Num (min (spec_first_lag (drop 1 pacf_all)) 10), Txt '', d='',
                     Num (int n), Txt '', q='',
                     Num (min (spec_first_lag (drop 1 acf_all)) 10)])])
       \<and> 0 \<le> min (spec_first_lag (drop 1 pacf_all)) 10
       \<and> min (spec_first_lag (drop 1 pacf_all)) 10 \<le> 10
       \<and> 0 \<le> min (spec_first_lag (drop 1 acf_all)) 10
       \<and> min (spec_first_lag (drop 1 acf_all)) 10 \<le> 10"
proof -
  have "diff_loop (adfuller lib) (dropna series) 0 =
          Inr (((\<lambda>s. dropna (diff s)) ^^ n) (dropna series), 0 + int n)"
    using assms(2-6) by (intro diff_loop_produces) auto
  then have run: "diff_loop (adfuller lib) (dropna series) 0 = Inr (temp, int n)"
    using assms(3) by simp
  have "0 \<le> spec_first_lag (drop 1 pacf_all)" "0 \<le> spec_first_lag (drop 1 acf_all)"
    using first_lag_nonneg by (simp_all add: first_lag_spec [symmetric])
  with assms(1,7-9) run show ?thesis
    by (simp add: get_arima_params_def Let_def first_lag_spec)
qed

theorem order_estimation_witness:
  "get_arima_params stub_library [Some 1, Some 2, Some 4, None, Some 7, Some 11, Some 16] =
     (Inr (2, 1, 0, BytesIO ''PNG''),
      [(INFO, [Txt ''ARIMA parameters determined: p='', Num 2, Txt '', d='', Num 1,
               Txt '', q='', Num 0])])"
proof -
  have rounds: "\<forall>k<1. \<exists>r'. adfuller stub_library (((\<lambda>s. dropna (diff s)) ^^ k)
        (dropna [Some 1, Some 2, Some 4, None, Some 7, Some 11, Some 16])) = Inr r'
      \<and> pvalue r' > 0.05"
    by (simp add: stub_library_def stub_adfuller_def)
  have temp: "[1, 2, 3, 4, 5] = ((\<lambda>s. dropna (diff s)) ^^ 1)
        (dropna [Some 1, Some 2, Some 4, None, Some 7, Some 11, Some 16])"
    by simp
  have exit: "adfuller stub_library [1, 2, 3, 4, 5] =
      Inr \<lparr>adfstat = - 5, pvalue = 0.01, usedlag = 0, nobs = 4,
           critvalues = [(''1%'', - 3.5), (''5%'', - 2.9), (''10%'', - 2.6)], icbest = 0\<rparr>"
    by (simp add: stub_library_def stub_adfuller_def)
  have stationary: "pvalue \<lparr>adfstat = - 5, pvalue = 0.01, usedlag = 0, nobs = 4,
           critvalues = [(''1%'', - 3.5), (''5%'', - 2.9), (''10%'', - 2.6)], icbest = 0\<rparr>
         \<le> 0.05 \<or> (1::nat) = 2"
    by simp
  have cap: "(1::nat) \<le> 2" by simp
  have png: "savefig stub_library [1, 2, 3, 4, 5] 20 = Inr ''PNG''"
    by (simp add: stub_library_def)
  have pa: "pacf stub_library [1, 2, 3, 4, 5] 20 = Inr (1 # 0.1 # 0.1 # 0.4 # replicate 17 0)"
    by (simp add: stub_library_def)
  have ac: "acf stub_library [1, 2, 3, 4, 5] 20 = Inr (1 # 0.5 # replicate 19 0)"
    by (simp add: stub_library_def)
  have p: "min (spec_first_lag (drop 1 (1 # 0.1 # 0.1 # 0.4 # replicate 17 0))) 10 = 2"
    by (simp add: first_lag_spec [symmetric] first_lag_def py_range_def upt_rec
        numeral_eq_Suc)
  have q: "min (spec_first_lag (drop 1 (1 # 0.5 # replicate 19 0))) 10 = 0"
    by (simp add: first_lag_spec [symmetric] first_lag_def py_range_def upt_rec
        numeral_eq_Suc)
  show ?thesis
    using order_estimation
      [OF nondegenerate_example rounds temp exit stationary cap png pa ac]
    by (simp only: p q) simp
qed

text \<open>
  C2 as stated fails: on a non-degenerate series of three observations the unit-root
  test raises, \<open>get_arima_params\<close> raises with it, and no \<open>p\<close> or \<open>q\<close> is returned.
\<close>

theorem order_estimation_counterexample:
  "\<not> (length (dropna [Some 3, Some 1, Some 2]) < 2
      \<or> std stub_library (dropna [Some 3, Some 1, Some 2]) = 0)
   \<and> get_arima_params stub_library [Some 3, Some 1, Some 2] =
       (Inl (PyException ''sample size is too short to use selected regression component''),
        [])"
  by (simp add: get_arima_params_def diff_loop.simps stub_library_def stub_adfuller_def
      exact_std_def mean_def power2_eq_square)

text \<open>
  C3, as the code has it. On a series that is not degenerate, and when the plot, the
  PACF and the ACF of the \<open>d\<close> times differenced cleaned series return (each time the
  leading missing value dropped), \<open>get_arima_params\<close> returns a proposal with the counter
  \<open>d\<close> exactly when \<open>d\<close> lies between 0 and 2, the unit-root test returned a p-value
  above 0.05 on the cleaned series and on each of its first \<open>d - 1\<close> differences, and it
  returned on the \<open>d\<close>-th difference with a p-value of at most 0.05 or with \<open>d = 2\<close>. So
  the loop differences while the p-value exceeds 0.05 and fewer than 2 differences have
  been taken, it ends when the series tests stationary or at the cap of 2, and a
  returned \<open>d\<close> never exceeds 2. The loop is a total function: its termination is proved
  with the measure \<open>2 - diff_count\<close>.
\<close>

theorem differencing_loop:
  assumes "\<not> (length (dropna series) < 2 \<or> std lib (dropna series) = 0)"
      and "temp = ((\<lambda>s. dropna (diff s)) ^^ nat d) (dropna series)"
      and "savefig lib temp 20 = Inr png"
      and "pacf lib temp 20 = Inr pacf_all"
      and "acf lib temp 20 = Inr acf_all"
  shows "(\<exists>p q b records. get_arima_params lib series = (Inr (p, d, q, b), records))
       \<longleftrightarrow> 0 \<le> d \<and> d \<le> 2
           \<and> (\<forall>k<nat d. \<exists>r'.
                 adfuller lib (((\<lambda>s. dropna (diff s)) ^^ k) (dropna series)) = Inr r'
               \<and> pvalue r' > 0.05)
           \<and> (\<exists>r. adfuller lib temp = Inr r \<and> (pvalue r \<le> 0.05 \<or> d = 2))"
proof
  assume "\<exists>p q b records. get_arima_params lib series = (Inr (p, d, q, b), records)"
  then obtain p q b records
    where ret: "get_arima_params lib series = (Inr (p, d, q, b), records)" by blast
  with assms(1) obtain temp'
    where run: "diff_loop (adfuller lib) (dropna series) 0 = Inr (temp', d)"
    by (auto simp add: get_arima_params_def Let_def split: sum.splits)
  have z: "(0::int) \<le> 2" by simp
  have inv: "0 \<le> d \<and> d \<le> 2
      \<and> temp' = ((\<lambda>s. dropna (diff s)) ^^ nat d) (dropna series)
      \<and> (\<forall>k<nat d. \<exists>r'.
            adfuller lib (((\<lambda>s. dropna (diff s)) ^^ k) (dropna series)) = Inr r'
          \<and> pvalue r' > 0.05)
      \<and> (\<exists>r. adfuller lib temp' = Inr r \<and> (pvalue r \<le> 0.05 \<or> d = 2))"
    using diff_loop_inv [OF run z] unfolding diff_zero .
  from inv assms(2) have eq: "temp' = temp" by simp
  from inv have bounds: "0 \<le> d" "d \<le> 2" by blast+
  from inv have rounds: "\<forall>k<nat d. \<exists>r'.
            adfuller lib (((\<lambda>s. dropna (diff s)) ^^ k) (dropna series)) = Inr r'
          \<and> pvalue r' > 0.05"
    by blast
  from inv have "\<exists>r. adfuller lib temp' = Inr r \<and> (pvalue r \<le> 0.05 \<or> d = 2)"
    by blast
  then have exit: "\<exists>r. adfuller lib temp = Inr r \<and> (pvalue r \<le> 0.05 \<or> d = 2)"
    unfolding eq .
  from bounds rounds exit show "0 \<le> d \<and> d \<le> 2
      \<and> (\<forall>k<nat d. \<exists>r'.
            adfuller lib (((\<lambda>s. dropna (diff s)) ^^ k) (dropna series)) = Inr r'
          \<and> pvalue r' > 0.05)
      \<and> (\<exists>r. adfuller lib temp = Inr r \<and> (pvalue r \<le> 0.05 \<or> d = 2))"
    by blast
next
  assume rhs: "0 \<le> d \<and> d \<le> 2
      \<and> (\<forall>k<nat d. \<exists>r'.
            adfuller lib (((\<lambda>s. dropna (diff s)) ^^ k) (dropna series)) = Inr r'
          \<and> pvalue r' > 0.05)
      \<and> (\<exists>r. adfuller lib temp = Inr r \<and> (pvalue r \<le> 0.05 \<or> d = 2))"
  then obtain r where r: "adfuller lib temp = Inr r" "pvalue r \<le> 0.05 \<or> d = 2" by blast
  from rhs have d: "0 \<le> d" "d \<le> 2" by simp_all
  have "diff_loop (adfuller lib) (dropna series) 0 =
          Inr (((\<lambda>s. dropna (diff s)) ^^ nat d) (dropna series), 0 + int (nat d))"
    using rhs r d assms(2) by (intro diff_loop_produces [where r = r]) auto
  with d assms(2) have run: "diff_loop (adfuller lib) (dropna series) 0 = Inr (temp, d)"
    by simp
  with assms(1,3-5)
  show "\<exists>p q b records. get_arima_params lib series = (Inr (p, d, q, b), records)"
    by (simp add: get_arima_params_def Let_def)
qed

theorem differencing_loop_witness:
  "(\<exists>p q b records.
      get_arima_params stub_library
        [Some 1, Some 3, Some 2, Some 6, Some 4, Some 9, Some 5, Some 12]
      = (Inr (p, 2, q, b), records))
   \<and> adfuller stub_library [- 3, 5, - 6, 7, - 9, 11] =
       Inr \<lparr>adfstat = - 6, pvalue = 0.5, usedlag = 0, nobs = 5,
            critvalues = [(''1%'', - 3.5), (''5%'', - 2.9), (''10%'', - 2.6)], icbest = 0\<rparr>"
proof -
  have temp: "[- 3, 5, - 6, 7, - 9, 11] = ((\<lambda>s. dropna (diff s)) ^^ nat 2)
        (dropna [Some 1, Some 3, Some 2, Some 6, Some 4, Some 9, Some 5, Some 12])"
    by (simp add: numeral_2_eq_2)
  have png: "savefig stub_library [- 3, 5, - 6, 7, - 9, 11] 20 = Inr ''PNG''"
    by (simp add: stub_library_def)
  have pa: "pacf stub_library [- 3, 5, - 6, 7, - 9, 11] 20 =
              Inr (1 # 0.1 # 0.1 # 0.4 # replicate 17 0)"
    by (simp add: stub_library_def)
  have ac: "acf stub_library [- 3, 5, - 6, 7, - 9, 11] 20 = Inr (1 # 0.5 # replicate 19 0)"
    by (simp add: stub_library_def)
  have exit: "adfuller stub_library [- 3, 5, - 6, 7, - 9, 11] =
       Inr \<lparr>adfstat = - 6, pvalue = 0.5, usedlag = 0, nobs = 5,
            critvalues = [(''1%'', - 3.5), (''5%'', - 2.9), (''10%'', - 2.6)], icbest = 0\<rparr>"
    by (simp add: stub_library_def stub_adfuller_def)
  have rounds: "\<forall>k<nat 2. \<exists>r'. adfuller stub_library (((\<lambda>s. dropna (diff s)) ^^ k)
        (dropna [Some 1, Some 3, Some 2, Some 6, Some 4, Some 9, Some 5, Some 12])) = Inr r'
      \<and> pvalue r' > 0.05"
    by (simp add: stub_library_def stub_adfuller_def numeral_2_eq_2 less_Suc_eq)
  show ?thesis
    using differencing_loop [OF long_example temp png pa ac] exit rounds by simp
qed

text \<open>
  C3 as stated fails: on a non-degenerate series of two observations the loop ends
  neither on a stationary series nor at the cap: the unit-root test raises at the first
  evaluation of the condition, and no \<open>d\<close> is returned.
\<close>

theorem differencing_loop_counterexample:
  "\<not> (length (dropna [Some 2, None, Some 5]) < 2
      \<or> std stub_library (dropna [Some 2, None, Some 5]) = 0)
   \<and> diff_loop (adfuller stub_library) (dropna [Some 2, None, Some 5]) 0 =
       Inl (PyException ''sample size is too short to use selected regression component'')
   \<and> get_arima_params stub_library [Some 2, None, Some 5] =
       (Inl (PyException ''sample size is too short to use selected regression component''),
        [])"
  by (simp add: get_arima_params_def diff_loop.simps stub_library_def stub_adfuller_def
      exact_std_def mean_def power2_eq_square)

text \<open>
  C8, as the code has it. On a series that is not degenerate, a returned proposal
  carries, beside \<open>p\<close>, \<open>d\<close> and \<open>q\<close>, the buffer with the PNG image of the ACF and PACF
  plots (20 lags) of the series at the exit of the differencing loop. The ACF and PACF
  values up to lag 20, without lag 0, are computed on that series for \<open>p\<close> and \<open>q\<close> only;
  they are not part of the result.
\<close>

theorem diagnostics_is_png:
  assumes "\<not> (length (dropna series) < 2 \<or> std lib (dropna series) = 0)"
      and "get_arima_params lib series = (Inr (p, d, q, b), records)"
  shows "\<exists>temp png pacf_all acf_all.
           diff_loop (adfuller lib) (dropna series) 0 = Inr (temp, d)
         \<and> savefig lib temp 20 = Inr png
         \<and> b = BytesIO png
         \<and> pacf lib temp 20 = Inr pacf_all
         \<and> acf lib temp 20 = Inr acf_all
         \<and> p = min (first_lag (drop 1 pacf_all)) 10
         \<and> q = min (first_lag (drop 1 acf_all)) 10"
  using assms
  by (auto simp add: get_arima_params_def Let_def split: sum.splits)

theorem diagnostics_is_png_witness:
  "savefig stub_library (dropna (diff [1, 2, 4, 7, 11, 16])) 20 = Inr ''PNG''
   \<and> (\<exists>temp. diff_loop (adfuller stub_library)
          (dropna [Some 1, Some 2, Some 4, None, Some 7, Some 11, Some 16]) 0 = Inr (temp, 1))"
  using diagnostics_is_png [OF nondegenerate_example example_run]
  by (auto simp add: stub_library_def)

text \<open>
  C8 as stated fails: on the example series the fourth component of the proposal is a
  buffer of image bytes, not a pair of numeric sequences.
\<close>

theorem diagnostics_curves_counterexample:
  "fst (get_arima_params stub_library [Some 1, Some 2, Some 4, None, Some 7, Some 11, Some 16])
     = Inr (2, 1, 0, BytesIO ''PNG'')
   \<and> \<not> is_Curves (BytesIO ''PNG'')"
  by (simp add: example_run)

end
